theory Spec2Isabelle
  imports Complex_Main
begin

section \<open>Data model of \<open>mqtt_io/server.py\<close>\<close>

text \<open>
  The server keeps its configuration in dictionaries and talks to three collaborators:
  the GPIO and sensor modules (hardware), the MQTT client, and the asyncio event loop.
  A call into a collaborator is recorded as an \<open>effect\<close>; a coroutine of the source
  becomes a function that returns the effects it performs, in order. Exceptions are
  values of \<open>error\<close>.

  The builtins \<open>float\<close>, \<open>round\<close> and \<open>str\<close> are parameters of the functions that
  call them, and so is the module \<open>re\<close> outside the patterns modelled below.
\<close>

datatype level = DEBUG | INFO | WARNING | EXCEPTION

text \<open>
  The exceptions of the message path: \<open>KeyError_None\<close> is the \<open>KeyError\<close> of a lookup
  with the key \<open>None\<close>, \<open>ReError\<close> is \<open>re.error\<close> (the pattern does not compile).
\<close>

datatype error = ValueError string | KeyError string | KeyError_None | ReError string

text \<open>
  A Python float: a finite value (a \<open>real\<close>: ideal arithmetic, rounding is not
  modelled), an infinity or not-a-number. Sensor values and configured intervals are
  finite numbers and stay \<open>real\<close>.
\<close>

datatype py_float = Finite real | PosInf | NegInf | NaN

text \<open>A hardware module object, identified by the name it is configured under.\<close>

datatype gpio_module = GpioModule string

text \<open>One entry of \<open>config["digital_outputs"]\<close>.\<close>

record output_config =
  name :: string
  module :: string
  pin :: nat
  inverted :: bool
  on_payload :: string
  off_payload :: string
  retain :: bool
  initial :: string
  publish_initial :: bool

datatype event =
    DigitalInputChangedEvent string bool
  | SensorReadEvent string real

text \<open>
  \<open>Publish topic payload qos retain\<close>: \<open>qos\<close> and \<open>retain\<close> are \<open>None\<close> where the
  source does not pass them. \<open>encode("utf8")\<close> is the identity on the model's strings.
\<close>

datatype effect =
    SetPin gpio_module nat bool
  | SetupOutputPin gpio_module nat
  | Publish string string "nat option" "bool option"
  | Disconnect
  | Sleep py_float
  | Fire event
  | Log level string

text \<open>An item of a module's output queue: \<open>(module, output_config, payload)\<close>.\<close>

type_synonym command = "gpio_module \<times> output_config \<times> string"

text \<open>
  The coroutines the server schedules. A worker is identified by the module name its
  queue is stored under; a pulse carries what the closure \<open>set_ms\<close> captures.
\<close>

datatype coroutine =
    DigitalOutputLoop string
  | SetMs gpio_module output_config bool string
  | PollSensor string
  | DigitalInputPoller string

text \<open>
  An exception a task can end with: derived from \<open>Exception\<close>, or only from
  \<open>BaseException\<close> (the handler \<open>except Exception\<close> does not catch the latter).
\<close>

datatype exc = PyException string | PyBaseException string

datatype outcome = Pending | Returned | Raised exc

datatype task = Task coroutine outcome

record mqtt_gpio =
  topic_prefix :: string
  status_topic :: string
  status_payload_stopped :: string
  digital_output_configs :: "string \<rightharpoonup> output_config"
  gpio_modules :: "string \<rightharpoonup> gpio_module"
  module_output_queues :: "string \<rightharpoonup> command list"
  unawaited_tasks :: "task list"

section \<open>Strings and the topic pattern\<close>

definition endswith :: "string \<Rightarrow> string \<Rightarrow> bool" where
  "endswith s suf \<longleftrightarrow> length suf \<le> length s \<and> drop (length s - length suf) s = suf"

definition SET_TOPIC :: string where "SET_TOPIC = ''set''"
definition SET_ON_MS_TOPIC :: string where "SET_ON_MS_TOPIC = ''set_on_ms''"
definition SET_OFF_MS_TOPIC :: string where "SET_OFF_MS_TOPIC = ''set_off_ms''"
definition OUTPUT_TOPIC :: string where "OUTPUT_TOPIC = ''output''"
definition SENSOR_TOPIC :: string where "SENSOR_TOPIC = ''sensor''"

definition newline :: char where "newline = CHR 0x0A"

text \<open>
  \<open>output_name_from_topic\<close> formats the prefix, unescaped, into the pattern
  \<open>^{prefix}/output/(.+?)/.+$\<close> and calls \<open>re.match\<close>. The model computes the match
  for a prefix in which every character is an ordinary character (it matches itself)
  or a dot (it matches any character but a newline): \<open>modelled_prefix\<close>. For a prefix
  with another metacharacter the model asks its parameter \<open>re\<close>, which stands for
  \<open>re.match\<close> on the pattern and the topic there: the pattern does not compile, the
  match is \<open>None\<close>, or the match has \<open>group(1)\<close> (a string, or \<open>None\<close> when the group
  took no part).
\<close>

datatype re_result = ReRaises | ReNone | ReGroup1 "string option"

type_synonym re_match = "string \<Rightarrow> string \<Rightarrow> re_result"

definition regex_meta :: "char list" where
  "regex_meta = [CHR ''.'', CHR ''^'', CHR ''$'', CHR ''*'', CHR ''+'', CHR ''?'',
     CHR ''{'', CHR ''}'', CHR ''['', CHR '']'', CHR 0x5C, CHR ''|'', CHR ''('', CHR '')'']"


definition modelled_prefix :: "string \<Rightarrow> bool" where
  "modelled_prefix p \<longleftrightarrow> list_all (\<lambda>c. c = CHR ''.'' \<or> c \<notin> set regex_meta) p"

text \<open>
  The head of the pattern, one pattern character against one character of the topic;
  the result is what is left of the topic.
\<close>

fun match_prefix :: "string \<Rightarrow> string \<Rightarrow> string option" where
  "match_prefix [] s = Some s"
| "match_prefix (p # ps) [] = None"
| "match_prefix (p # ps) (c # cs) =
     (if p = CHR ''.'' then (if c = newline then None else match_prefix ps cs)
      else if p = c then match_prefix ps cs
      else None)"

fun match_literal :: "string \<Rightarrow> string \<Rightarrow> string option" where
  "match_literal [] s = Some s"
| "match_literal (p # ps) [] = None"
| "match_literal (p # ps) (c # cs) = (if p = c then match_literal ps cs else None)"

text \<open>
  The tail \<open>.+$\<close>: one or more characters other than a newline, up to the end of the
  string or up to a single newline that ends it.
\<close>

definition match_tail :: "string \<Rightarrow> bool" where
  "match_tail t =
     (let u = (if t \<noteq> [] \<and> last t = newline then butlast t else t)
      in u \<noteq> [] \<and> newline \<notin> set u)"

text \<open>
  The lazy group \<open>(.+?)\<close> followed by \<open>/.+$\<close>: the group starts with one character and
  grows one character at a time (never over a newline) until a slash follows it and the
  rest matches the tail. \<open>acc\<close> is the group so far.
\<close>

fun match_name :: "string \<Rightarrow> string \<Rightarrow> string option" where
  "match_name acc [] = None"
| "match_name acc (c # cs) =
     (if acc \<noteq> [] \<and> c = CHR ''/'' \<and> match_tail cs then Some acc
      else if c = newline then None
      else match_name (acc @ [c]) cs)"

definition topic_pattern :: "string \<Rightarrow> string" where
  "topic_pattern pfx = ''^'' @ pfx @ ''/'' @ OUTPUT_TOPIC @ ''/(.+?)/.+$''"

text \<open>The result is \<open>match.group(1)\<close>, so it can be \<open>None\<close>.\<close>

definition output_name_from_topic :: "re_match \<Rightarrow> string \<Rightarrow> string \<Rightarrow> error + string option" where
  "output_name_from_topic re topic pfx =
     (if modelled_prefix pfx then
        (case match_prefix pfx topic of
           None \<Rightarrow> Inl (ValueError topic)
         | Some after_prefix \<Rightarrow>
             (case match_literal (''/'' @ OUTPUT_TOPIC @ ''/'') after_prefix of
                None \<Rightarrow> Inl (ValueError topic)
              | Some rest \<Rightarrow>
                  (case match_name [] rest of
                     None \<Rightarrow> Inl (ValueError topic)
                   | Some n \<Rightarrow> Inr (Some n))))
      else
        (case re (topic_pattern pfx) topic of
           ReRaises \<Rightarrow> Inl (ReError (topic_pattern pfx))
         | ReNone \<Rightarrow> Inl (ValueError topic)
         | ReGroup1 g \<Rightarrow> Inr g))"

section \<open>Digital outputs\<close>

definition set_digital_output :: "gpio_module \<Rightarrow> output_config \<Rightarrow> bool \<Rightarrow> effect list" where
  "set_digital_output m output_config val =
     (let set_value = (val \<noteq> inverted output_config)
      in [SetPin m (pin output_config) set_value,
          Log INFO ''Digital output %s set to %s (%s)''])"

definition output_topic :: "string \<Rightarrow> output_config \<Rightarrow> string" where
  "output_topic pfx output_config = pfx @ ''/output/'' @ name output_config"

text \<open>
  The worker of one module queue. Its argument is the sequence of commands that
  \<open>queue.get()\<close> hands out; on the empty queue the worker is suspended, so it performs
  nothing more.
\<close>

fun digital_output_loop :: "string \<Rightarrow> command list \<Rightarrow> effect list" where
  "digital_output_loop pfx [] = []"
| "digital_output_loop pfx ((m, output_config, payload) # queue) =
     (if payload \<noteq> on_payload output_config \<and> payload \<noteq> off_payload output_config
      then Log WARNING ''%s is not a valid payload for output %s. Only %s and %s are allowed.''
             # digital_output_loop pfx queue
      else set_digital_output m output_config (payload = on_payload output_config)
             @ Publish (output_topic pfx output_config) payload (Some 1)
                 (Some (retain output_config))
             # digital_output_loop pfx queue)"

text \<open>
  The duration of a pulse: \<open>float(payload) / 1000\<close>.
\<close>

fun div_1000 :: "py_float \<Rightarrow> py_float" where
  "div_1000 (Finite d) = Finite (d / 1000)"
| "div_1000 PosInf = PosInf"
| "div_1000 NegInf = NegInf"
| "div_1000 NaN = NaN"

text \<open>
  Whether \<open>await asyncio.sleep(secs)\<close> ever returns: at once for a delay that is not
  positive, after the delay for a finite one, and never for \<open>inf\<close> (the timer is never
  due). What the loop does with a timer due at \<open>nan\<close> is left to the parameter
  \<open>nan_returns\<close>.
\<close>

fun sleep_returns :: "bool \<Rightarrow> py_float \<Rightarrow> bool" where
  "sleep_returns nan_returns (Finite d) = True"
| "sleep_returns nan_returns NegInf = True"
| "sleep_returns nan_returns PosInf = False"
| "sleep_returns nan_returns NaN = nan_returns"

text \<open>
  The pulse coroutine \<open>set_ms\<close>. \<open>pyfloat\<close> is the builtin \<open>float\<close> on a string:
  \<open>None\<close> where it raises \<open>ValueError\<close>. When the sleep never returns, the coroutine
  performs nothing after it.
\<close>

definition set_ms ::
  "(string \<Rightarrow> py_float option) \<Rightarrow> bool \<Rightarrow> string \<Rightarrow> gpio_module \<Rightarrow> output_config \<Rightarrow> bool
     \<Rightarrow> string \<Rightarrow> effect list" where
  "set_ms pyfloat nan_returns pfx m output_config desired_value payload =
     (case pyfloat payload of
        None \<Rightarrow> [Log WARNING ''Unable to parse ms value as float from payload %r'']
      | Some ms \<Rightarrow>
          (let secs = div_1000 ms in
           [Log INFO ''Turning output %s %s for %s second(s)'']
           @ set_digital_output m output_config desired_value
           @ [Publish (output_topic pfx output_config)
                (if desired_value then on_payload output_config
                 else off_payload output_config)
                (Some 1) (Some (retain output_config)),
              Sleep secs]
           @ (if sleep_returns nan_returns secs then
                [Log INFO ''Turning output %s %s after %s second(s) elapsed'']
                @ set_digital_output m output_config (\<not> desired_value)
                @ [Publish (output_topic pfx output_config)
                     (if desired_value then off_payload output_config
                      else on_payload output_config)
                     (Some 1) (Some (retain output_config))]
              else [])))"

section \<open>The message handler\<close>

definition control_topic :: "string \<Rightarrow> bool" where
  "control_topic topic \<longleftrightarrow>
     list_ex (\<lambda>x. endswith topic (''/'' @ x)) [SET_TOPIC, SET_ON_MS_TOPIC, SET_OFF_MS_TOPIC]"

text \<open>
  \<open>_handle_mqtt_msg\<close> returns the new server state and what it logged, or the exception
  that leaves it. A dictionary lookup with a missing key raises \<open>KeyError\<close>.
\<close>

definition handle_mqtt_msg ::
  "re_match \<Rightarrow> mqtt_gpio \<Rightarrow> string \<Rightarrow> string \<Rightarrow> error + mqtt_gpio \<times> effect list" where
  "handle_mqtt_msg re s topic payload =
     (if \<not> control_topic topic
      then Inr (s, [Log DEBUG ''Ignoring message to topic %s which does not end with /set etc.''])
      else
        (case output_name_from_topic re topic (topic_prefix s) of
           Inl (ValueError e) \<Rightarrow> Inr (s, [Log WARNING ''Unable to parse topic: %s''])
         | Inl e \<Rightarrow> Inl e
         | Inr None \<Rightarrow> Inl KeyError_None
         | Inr (Some output_name) \<Rightarrow>
             (case digital_output_configs s output_name of
                None \<Rightarrow> Inl (KeyError output_name)
              | Some output_config \<Rightarrow>
                  (case gpio_modules s (module output_config) of
                     None \<Rightarrow> Inl (KeyError (module output_config))
                   | Some m \<Rightarrow>
                       if endswith topic (''/'' @ SET_TOPIC) then
                         (case module_output_queues s (module output_config) of
                            None \<Rightarrow> Inl (KeyError (module output_config))
                          | Some queue \<Rightarrow>
                              Inr (s\<lparr>module_output_queues :=
                                       (module_output_queues s)
                                         (module output_config \<mapsto>
                                            queue @ [(m, output_config, payload)])\<rparr>, []))
                       else
                         (let desired_value = endswith topic (''/'' @ SET_ON_MS_TOPIC) in
                          Inr (s\<lparr>unawaited_tasks :=
                                   unawaited_tasks s
                                     @ [Task (SetMs m output_config desired_value payload)
                                          Pending]\<rparr>, []))))))"

section \<open>Start-up\<close>

text \<open>
  \<open>__init__\<close> stores the configuration (here: the topic prefix, the status topic and
  the payload for "stopped") and leaves every dictionary and the task list empty;
  \<open>_init_gpio_modules\<close> stores one module object under each configured module name.
\<close>

definition new_mqtt_gpio :: "string \<Rightarrow> string \<Rightarrow> string \<Rightarrow> mqtt_gpio" where
  "new_mqtt_gpio pfx status stopped =
     \<lparr>topic_prefix = pfx, status_topic = status, status_payload_stopped = stopped,
      digital_output_configs = Map.empty, gpio_modules = Map.empty,
      module_output_queues = Map.empty, unawaited_tasks = []\<rparr>"

definition init_gpio_modules :: "mqtt_gpio \<Rightarrow> string list \<Rightarrow> mqtt_gpio" where
  "init_gpio_modules s names =
     s\<lparr>gpio_modules := map_of (map (\<lambda>n. (n, GpioModule n)) names)\<rparr>"

text \<open>
  The loop of \<open>_init_digital_outputs\<close> over \<open>config["digital_outputs"]\<close>: set the pin
  up, and create the module's queue and its worker if the module has no queue yet.
\<close>

fun init_output_queues :: "mqtt_gpio \<Rightarrow> output_config list \<Rightarrow> error + mqtt_gpio \<times> effect list" where
  "init_output_queues s [] = Inr (s, [])"
| "init_output_queues s (out_conf # rest) =
     (case gpio_modules s (module out_conf) of
        None \<Rightarrow> Inl (KeyError (module out_conf))
      | Some m \<Rightarrow>
          (let s' =
             (if module_output_queues s (module out_conf) = None
              then s\<lparr>module_output_queues :=
                        (module_output_queues s)(module out_conf \<mapsto> []),
                      unawaited_tasks :=
                        unawaited_tasks s @ [Task (DigitalOutputLoop (module out_conf)) Pending]\<rparr>
              else s)
           in case init_output_queues s' rest of
                Inl e \<Rightarrow> Inl e
              | Inr (s'', effs) \<Rightarrow> Inr (s'', SetupOutputPin m (pin out_conf) # effs)))"

text \<open>The dictionary comprehension keeps the last entry of a repeated name.\<close>

definition init_digital_outputs :: "mqtt_gpio \<Rightarrow> output_config list \<Rightarrow> error + mqtt_gpio \<times> effect list" where
  "init_digital_outputs s outs =
     init_output_queues
       (s\<lparr>digital_output_configs := map_of (rev (map (\<lambda>x. (name x, x)) outs))\<rparr>) outs"



section \<open>The task reaper\<close>

fun task_done :: "task \<Rightarrow> bool" where
  "task_done (Task c out) = (out \<noteq> Pending)"

text \<open>
  The \<open>for\<close> loop over \<open>finished_tasks\<close>: \<open>await task\<close> re-raises what the task ended
  with, and \<open>except Exception\<close> logs it. An exception that is not an \<open>Exception\<close>
  leaves the loop and the coroutine. The list holds finished tasks only, so the
  \<open>Pending\<close> equation is never reached.
\<close>

fun await_finished :: "task list \<Rightarrow> exc + effect list" where
  "await_finished [] = Inr []"
| "await_finished (Task c (Raised (PyBaseException e)) # ts) = Inl (PyBaseException e)"
| "await_finished (Task c (Raised (PyException e)) # ts) =
     (case await_finished ts of
        Inl b \<Rightarrow> Inl b
      | Inr logs \<Rightarrow> Inr (Log EXCEPTION ''Exception in task: %r:'' # logs))"
| "await_finished (Task c out # ts) = await_finished ts"

text \<open>One pass of the \<open>while True\<close> loop of \<open>_remove_finished_tasks\<close>.\<close>

definition remove_finished_tasks_pass :: "mqtt_gpio \<Rightarrow> exc + mqtt_gpio \<times> effect list" where
  "remove_finished_tasks_pass s =
     (let finished_tasks = filter task_done (unawaited_tasks s) in
      if finished_tasks = [] then Inr (s, [Sleep (Finite 1)])
      else
        (case await_finished finished_tasks of
           Inl b \<Rightarrow> Inl b
         | Inr logs \<Rightarrow>
             Inr (s\<lparr>unawaited_tasks := filter (\<lambda>x. \<not> task_done x) (unawaited_tasks s)\<rparr>,
                  Sleep (Finite 1) # logs)))"

section \<open>The sensor poller\<close>

text \<open>One entry of \<open>config["sensor_inputs"]\<close>, as far as \<open>poll_sensor\<close> reads it.\<close>

record sensor_input_config =
  sens_name :: string
  sens_module :: string
  interval :: real
  digits :: int

text \<open>
  The closure \<open>poll_sensor\<close>. Its last argument is what the successive calls of
  \<open>async_get_value\<close> return (\<open>None\<close>: no reading); \<open>pyround\<close> is the builtin
  \<open>round\<close>.
\<close>

fun poll_sensor ::
  "(real \<Rightarrow> int \<Rightarrow> real) \<Rightarrow> sensor_input_config \<Rightarrow> real option list \<Rightarrow> effect list" where
  "poll_sensor pyround sens_conf [] = []"
| "poll_sensor pyround sens_conf (None # readings) =
     Sleep (Finite (interval sens_conf)) # poll_sensor pyround sens_conf readings"
| "poll_sensor pyround sens_conf (Some v # readings) =
     (let val = pyround v (digits sens_conf) in
      [Log INFO ''Read sensor %s value of %s'',
       Fire (SensorReadEvent (sens_name sens_conf) val),
       Sleep (Finite (interval sens_conf))]
      @ poll_sensor pyround sens_conf readings)"

text \<open>
  The handler the server subscribes for \<open>SensorReadEvent\<close>; \<open>pystr\<close> is the builtin
  \<open>str\<close> on a float. It is the only place that publishes on a sensor topic. The bus
  does not call it for an event of another type (the second equation).
\<close>

fun publish_sensor_callback :: "(real \<Rightarrow> string) \<Rightarrow> string \<Rightarrow> event \<Rightarrow> effect list" where
  "publish_sensor_callback pystr pfx (SensorReadEvent sensor_name val) =
     [Publish (pfx @ ''/'' @ SENSOR_TOPIC @ ''/'' @ sensor_name) (pystr val) None None]"
| "publish_sensor_callback pystr pfx (DigitalInputChangedEvent n v) = []"

section \<open>The receive loop\<close>

text \<open>The \<open>finally\<close> block of \<open>_mqtt_rx_loop\<close>.\<close>

definition mqtt_rx_finalizer :: "mqtt_gpio \<Rightarrow> effect list" where
  "mqtt_rx_finalizer s =
     [Publish (topic_prefix s @ ''/'' @ status_topic s) (status_payload_stopped s)
        (Some 1) (Some True),
      Log INFO ''Disconnecting from MQTT...'',
      Disconnect,
      Log INFO ''MQTT disconnected'']"

text \<open>
  \<open>_mqtt_rx_loop\<close> on the messages that \<open>deliver_message\<close> hands out, decoded. When no
  message is left the task waits in \<open>deliver_message\<close> until it is cancelled. The loop
  ends by that cancellation or by an exception of the handler (the third component);
  the \<open>finally\<close> block runs in both cases.
\<close>

fun mqtt_rx_loop ::
  "re_match \<Rightarrow> mqtt_gpio \<Rightarrow> (string \<times> string) list
     \<Rightarrow> mqtt_gpio \<times> effect list \<times> error option" where
  "mqtt_rx_loop re s [] = (s, mqtt_rx_finalizer s, None)"
| "mqtt_rx_loop re s ((topic, payload) # msgs) =
     (case handle_mqtt_msg re s topic payload of
        Inl e \<Rightarrow>
          (s, Log INFO ''Received message on topic %r: %r'' # mqtt_rx_finalizer s, Some e)
      | Inr (s', effs) \<Rightarrow>
          (case mqtt_rx_loop re s' msgs of
             (s'', effs', r) \<Rightarrow>
               (s'', Log INFO ''Received message on topic %r: %r'' # effs @ effs', r)))"

section \<open>Shutdown on the event loop\<close>

text \<open>
  The event loop as \<open>shutdown\<close> sees it. A task has the effects it still performs when
  it runs on undisturbed (\<open>body\<close>) and the effects it performs once it is cancelled
  (\<open>on_cancel\<close>: its \<open>finally\<close> blocks). Each time the loop resumes a task, the task
  performs its next effect, up to its next suspension; a task with nothing left to
  perform is done. \<open>loop_trace\<close> records what happened on the loop, in order.
\<close>

type_synonym task_id = nat

datatype loop_event = Cancel task_id | Ran task_id effect | LoopStop








section \<open>The receive loop and the workers on one event loop\<close>




definition queue_of :: "mqtt_gpio \<Rightarrow> string \<Rightarrow> command list" where
  "queue_of s mn = (case module_output_queues s mn of None \<Rightarrow> [] | Some q \<Rightarrow> q)"










section \<open>Notions used in the statements\<close>


fun is_sleep :: "effect \<Rightarrow> bool" where
  "is_sleep (Sleep d) = True"
| "is_sleep e = False"

text \<open>The events a run of effects fires, in order.\<close>

fun fired :: "effect list \<Rightarrow> event list" where
  "fired [] = []"
| "fired (Fire ev # es) = ev # fired es"
| "fired (e # es) = fired es"

text \<open>
  Modelled from the spec: the event bus (\<open>mqtt_io/events.py\<close>, not part of the source
  at hand) runs the subscribed handler once for each event fired. What the sensor
  handler publishes for a run of effects:
\<close>

definition sensor_publishes :: "(real \<Rightarrow> string) \<Rightarrow> string \<Rightarrow> effect list \<Rightarrow> effect list" where
  "sensor_publishes pystr pfx effs = concat (map (publish_sensor_callback pystr pfx) (fired effs))"

text \<open>A task that ended with an exception, and one whose exception \<open>except Exception\<close> misses.\<close>

fun failed :: "task \<Rightarrow> bool" where
  "failed (Task c (Raised e)) = True"
| "failed t = False"

fun escapes :: "task \<Rightarrow> bool" where
  "escapes (Task c (Raised (PyBaseException e))) = True"
| "escapes t = False"

section \<open>A small configuration\<close>

text \<open>One inverted relay on one GPIO module, under the prefix \<open>home\<close>.\<close>

definition relay1 :: output_config where
  "relay1 = \<lparr>name = ''relay1'', module = ''gpio0'', pin = 17, inverted = True,
     on_payload = ''ON'', off_payload = ''OFF'', retain = False, initial = ''low'',
     publish_initial = False\<rparr>"

definition example_server :: mqtt_gpio where
  "example_server =
     \<lparr>topic_prefix = ''home'', status_topic = ''status'', status_payload_stopped = ''stopped'',
      digital_output_configs = [''relay1'' \<mapsto> relay1],
      gpio_modules = [''gpio0'' \<mapsto> GpioModule ''gpio0''],
      module_output_queues = [''gpio0'' \<mapsto> []],
      unawaited_tasks = [Task (DigitalOutputLoop ''gpio0'') Pending]\<rparr>"






text \<open>A stand-in for \<open>float\<close> that knows six payloads.\<close>

definition pyfloat_example :: "string \<Rightarrow> py_float option" where
  "pyfloat_example p =
     (if p = ''250'' then Some (Finite 250) else if p = ''0'' then Some (Finite 0)
      else if p = ''-5'' then Some (Finite (-5)) else if p = ''inf'' then Some PosInf
      else if p = ''-inf'' then Some NegInf else if p = ''nan'' then Some NaN
      else None)"


text \<open>An output whose name has two topic segments, alone on a server.\<close>

definition pump :: output_config where
  "pump = \<lparr>name = ''garden/pump'', module = ''gpio0'', pin = 5, inverted = False,
     on_payload = ''ON'', off_payload = ''OFF'', retain = False, initial = ''low'',
     publish_initial = False\<rparr>"

definition pump_server :: mqtt_gpio where
  "pump_server =
     \<lparr>topic_prefix = ''home'', status_topic = ''status'', status_payload_stopped = ''stopped'',
      digital_output_configs = [''garden/pump'' \<mapsto> pump],
      gpio_modules = [''gpio0'' \<mapsto> GpioModule ''gpio0''],
      module_output_queues = [''gpio0'' \<mapsto> []],
      unawaited_tasks = [Task (DigitalOutputLoop ''gpio0'') Pending]\<rparr>"

section \<open>Notions for the shutdown trace\<close>


fun effects_of :: "task_id \<Rightarrow> loop_event list \<Rightarrow> effect list" where
  "effects_of t [] = []"
| "effects_of t (Ran u e # evs) = (if u = t then e # effects_of t evs else effects_of t evs)"
| "effects_of t (ev # evs) = effects_of t evs"










section \<open>The example configurations are reached by start-up\<close>

lemma example_server_reached:
  "init_digital_outputs
     (init_gpio_modules (new_mqtt_gpio ''home'' ''status'' ''stopped'') [''gpio0'']) [relay1]
     = Inr (example_server, [SetupOutputPin (GpioModule ''gpio0'') 17])"
  by (simp add: init_digital_outputs_def init_gpio_modules_def new_mqtt_gpio_def
      example_server_def relay1_def)

lemma pump_server_reached:
  "init_digital_outputs
     (init_gpio_modules (new_mqtt_gpio ''home'' ''status'' ''stopped'') [''gpio0'']) [pump]
     = Inr (pump_server, [SetupOutputPin (GpioModule ''gpio0'') 5])"
  by (simp add: init_digital_outputs_def init_gpio_modules_def new_mqtt_gpio_def
      pump_server_def pump_def)

section \<open>Topic parsing\<close>


















section \<open>The message handler\<close>








text \<open>
  Claim C1 says that a request whose name resolves to no configured output is logged
  and dropped, and that no exception leaves the handler. The handler catches the
  \<open>ValueError\<close> of the topic parser only: on the example server a message for the
  unknown output \<open>ghost\<close> leaves the handler as \<open>KeyError\<close>, and the receive loop ends
  with it (its finalizer runs, the message after it is never handled).
\<close>

theorem unknown_output_name_raises:
  "handle_mqtt_msg re example_server ''home/output/ghost/set'' ''ON'' = Inl (KeyError ''ghost'')
   \<and> mqtt_rx_loop re example_server
       [(''home/output/ghost/set'', ''ON''), (''home/output/relay1/set'', ''ON'')] =
       (example_server,
        [Log INFO ''Received message on topic %r: %r'',
         Publish ''home/status'' ''stopped'' (Some 1) (Some True),
         Log INFO ''Disconnecting from MQTT...'', Disconnect, Log INFO ''MQTT disconnected''],
        Some (KeyError ''ghost''))"
  by (simp add: handle_mqtt_msg_def control_topic_def endswith_def SET_TOPIC_def
      SET_ON_MS_TOPIC_def SET_OFF_MS_TOPIC_def output_name_from_topic_def modelled_prefix_def
      regex_meta_def OUTPUT_TOPIC_def match_tail_def newline_def example_server_def
      mqtt_rx_finalizer_def)


section \<open>Immediate set\<close>




text \<open>
  Claim C3. A dequeued command whose payload is neither the on-payload nor the
  off-payload of its output makes the worker log one warning and nothing else (no
  hardware write, no publish); the worker goes on with the next command.
\<close>

theorem invalid_set_payload_no_effect:
  "payload \<noteq> on_payload cfg \<Longrightarrow> payload \<noteq> off_payload cfg \<Longrightarrow>
   digital_output_loop pfx ((m, cfg, payload) # queue) =
     Log WARNING ''%s is not a valid payload for output %s. Only %s and %s are allowed.''
       # digital_output_loop pfx queue"
  by simp

theorem invalid_set_payload_no_effect_witness:
  "digital_output_loop ''home''
     [(GpioModule ''gpio0'', relay1, ''on''), (GpioModule ''gpio0'', relay1, ''OFF'')] =
     [Log WARNING ''%s is not a valid payload for output %s. Only %s and %s are allowed.'',
      SetPin (GpioModule ''gpio0'') 17 True,
      Log INFO ''Digital output %s set to %s (%s)'',
      Publish ''home/output/relay1'' ''OFF'' (Some 1) (Some False)]"
  using invalid_set_payload_no_effect
    [of "''on''" relay1 "''home''" "GpioModule ''gpio0''"
      "[(GpioModule ''gpio0'', relay1, ''OFF'')]"]
  by (simp add: relay1_def set_digital_output_def output_topic_def)

section \<open>Timed pulses\<close>

lemma set_ms_parsed:
  "pyfloat payload = Some v \<Longrightarrow> sleep_returns nan_returns (div_1000 v) \<Longrightarrow>
   set_ms pyfloat nan_returns pfx m cfg desired_value payload =
     [Log INFO ''Turning output %s %s for %s second(s)'',
      SetPin m (pin cfg) (desired_value \<noteq> inverted cfg),
      Log INFO ''Digital output %s set to %s (%s)'',
      Publish (output_topic pfx cfg)
        (if desired_value then on_payload cfg else off_payload cfg) (Some 1)
        (Some (retain cfg)),
      Sleep (div_1000 v),
      Log INFO ''Turning output %s %s after %s second(s) elapsed'',
      SetPin m (pin cfg) ((\<not> desired_value) \<noteq> inverted cfg),
      Log INFO ''Digital output %s set to %s (%s)'',
      Publish (output_topic pfx cfg)
        (if desired_value then off_payload cfg else on_payload cfg) (Some 1)
        (Some (retain cfg))]"
  by (simp add: set_ms_def set_digital_output_def)


lemma set_ms_rejected_iff:
  "set_ms pyfloat nan_returns pfx m cfg desired_value payload =
     [Log WARNING ''Unable to parse ms value as float from payload %r'']
   \<longleftrightarrow> pyfloat payload = None"
  by (simp add: set_ms_def set_digital_output_def Let_def split: option.splits)




text \<open>
  Claim C9. A payload that parses as a finite float \<open>d \<le> 0\<close> is accepted: the pulse
  task performs both writes and both publishes, and the sleep between the two phases
  is for \<open>d / 1000 \<le> 0\<close> seconds. The same holds for the payload value \<open>-inf\<close>. The
  task rejects a payload (one warning and nothing else) exactly when \<open>float\<close> fails on
  it.
\<close>

theorem nonpositive_duration_accepted:
  "(pyfloat payload = Some (Finite d) \<and> d \<le> 0 \<longrightarrow>
      d / 1000 \<le> 0
      \<and> set_ms pyfloat nan_returns pfx m cfg desired_value payload =
          [Log INFO ''Turning output %s %s for %s second(s)'',
           SetPin m (pin cfg) (desired_value \<noteq> inverted cfg),
           Log INFO ''Digital output %s set to %s (%s)'',
           Publish (output_topic pfx cfg)
             (if desired_value then on_payload cfg else off_payload cfg) (Some 1)
             (Some (retain cfg)),
           Sleep (Finite (d / 1000)),
           Log INFO ''Turning output %s %s after %s second(s) elapsed'',
           SetPin m (pin cfg) ((\<not> desired_value) \<noteq> inverted cfg),
           Log INFO ''Digital output %s set to %s (%s)'',
           Publish (output_topic pfx cfg)
             (if desired_value then off_payload cfg else on_payload cfg) (Some 1)
             (Some (retain cfg))])
   \<and> (pyfloat payload = Some NegInf \<longrightarrow>
        set_ms pyfloat nan_returns pfx m cfg desired_value payload =
          [Log INFO ''Turning output %s %s for %s second(s)'',
           SetPin m (pin cfg) (desired_value \<noteq> inverted cfg),
           Log INFO ''Digital output %s set to %s (%s)'',
           Publish (output_topic pfx cfg)
             (if desired_value then on_payload cfg else off_payload cfg) (Some 1)
             (Some (retain cfg)),
           Sleep NegInf,
           Log INFO ''Turning output %s %s after %s second(s) elapsed'',
           SetPin m (pin cfg) ((\<not> desired_value) \<noteq> inverted cfg),
           Log INFO ''Digital output %s set to %s (%s)'',
           Publish (output_topic pfx cfg)
             (if desired_value then off_payload cfg else on_payload cfg) (Some 1)
             (Some (retain cfg))])
   \<and> (set_ms pyfloat nan_returns pfx m cfg desired_value payload =
         [Log WARNING ''Unable to parse ms value as float from payload %r'']
       \<longleftrightarrow> pyfloat payload = None)"
proof (intro conjI impI)
  assume a: "pyfloat payload = Some (Finite d) \<and> d \<le> 0"
  then show "d / 1000 \<le> 0"
    by (simp add: divide_le_0_iff)
  from a have "pyfloat payload = Some (Finite d)" by simp
  then show "set_ms pyfloat nan_returns pfx m cfg desired_value payload =
          [Log INFO ''Turning output %s %s for %s second(s)'',
           SetPin m (pin cfg) (desired_value \<noteq> inverted cfg),
           Log INFO ''Digital output %s set to %s (%s)'',
           Publish (output_topic pfx cfg)
             (if desired_value then on_payload cfg else off_payload cfg) (Some 1)
             (Some (retain cfg)),
           Sleep (Finite (d / 1000)),
           Log INFO ''Turning output %s %s after %s second(s) elapsed'',
           SetPin m (pin cfg) ((\<not> desired_value) \<noteq> inverted cfg),
           Log INFO ''Digital output %s set to %s (%s)'',
           Publish (output_topic pfx cfg)
             (if desired_value then off_payload cfg else on_payload cfg) (Some 1)
             (Some (retain cfg))]"
    using set_ms_parsed [of pyfloat payload "Finite d" nan_returns pfx m cfg desired_value]
    by simp
next
  assume "pyfloat payload = Some NegInf"
  then show "set_ms pyfloat nan_returns pfx m cfg desired_value payload =
          [Log INFO ''Turning output %s %s for %s second(s)'',
           SetPin m (pin cfg) (desired_value \<noteq> inverted cfg),
           Log INFO ''Digital output %s set to %s (%s)'',
           Publish (output_topic pfx cfg)
             (if desired_value then on_payload cfg else off_payload cfg) (Some 1)
             (Some (retain cfg)),
           Sleep NegInf,
           Log INFO ''Turning output %s %s after %s second(s) elapsed'',
           SetPin m (pin cfg) ((\<not> desired_value) \<noteq> inverted cfg),
           Log INFO ''Digital output %s set to %s (%s)'',
           Publish (output_topic pfx cfg)
             (if desired_value then off_payload cfg else on_payload cfg) (Some 1)
             (Some (retain cfg))]"
    using set_ms_parsed [of pyfloat payload NegInf nan_returns pfx m cfg desired_value]
    by simp
next
  show "set_ms pyfloat nan_returns pfx m cfg desired_value payload =
         [Log WARNING ''Unable to parse ms value as float from payload %r'']
       \<longleftrightarrow> pyfloat payload = None"
    by (rule set_ms_rejected_iff)
qed

theorem nonpositive_duration_accepted_witness:
  "set_ms pyfloat_example False ''home'' (GpioModule ''gpio0'') relay1 True ''-5'' =
     [Log INFO ''Turning output %s %s for %s second(s)'',
      SetPin (GpioModule ''gpio0'') 17 False,
      Log INFO ''Digital output %s set to %s (%s)'',
      Publish ''home/output/relay1'' ''ON'' (Some 1) (Some False),
      Sleep (Finite (- (1 / 200))),
      Log INFO ''Turning output %s %s after %s second(s) elapsed'',
      SetPin (GpioModule ''gpio0'') 17 True,
      Log INFO ''Digital output %s set to %s (%s)'',
      Publish ''home/output/relay1'' ''OFF'' (Some 1) (Some False)]
   \<and> set_ms pyfloat_example False ''home'' (GpioModule ''gpio0'') relay1 False ''0'' =
     [Log INFO ''Turning output %s %s for %s second(s)'',
      SetPin (GpioModule ''gpio0'') 17 True,
      Log INFO ''Digital output %s set to %s (%s)'',
      Publish ''home/output/relay1'' ''OFF'' (Some 1) (Some False),
      Sleep (Finite 0),
      Log INFO ''Turning output %s %s after %s second(s) elapsed'',
      SetPin (GpioModule ''gpio0'') 17 False,
      Log INFO ''Digital output %s set to %s (%s)'',
      Publish ''home/output/relay1'' ''ON'' (Some 1) (Some False)]
   \<and> set_ms pyfloat_example False ''home'' (GpioModule ''gpio0'') relay1 True ''-inf'' =
     [Log INFO ''Turning output %s %s for %s second(s)'',
      SetPin (GpioModule ''gpio0'') 17 False,
      Log INFO ''Digital output %s set to %s (%s)'',
      Publish ''home/output/relay1'' ''ON'' (Some 1) (Some False),
      Sleep NegInf,
      Log INFO ''Turning output %s %s after %s second(s) elapsed'',
      SetPin (GpioModule ''gpio0'') 17 True,
      Log INFO ''Digital output %s set to %s (%s)'',
      Publish ''home/output/relay1'' ''OFF'' (Some 1) (Some False)]
   \<and> set_ms pyfloat_example False ''home'' (GpioModule ''gpio0'') relay1 True ''soon'' =
       [Log WARNING ''Unable to parse ms value as float from payload %r'']"
  using nonpositive_duration_accepted
      [of pyfloat_example "''-5''" "-5" False "''home''" "GpioModule ''gpio0''" relay1 True]
    nonpositive_duration_accepted
      [of pyfloat_example "''0''" 0 False "''home''" "GpioModule ''gpio0''" relay1 False]
    nonpositive_duration_accepted
      [of pyfloat_example "''-inf''" 0 False "''home''" "GpioModule ''gpio0''" relay1 True]
    nonpositive_duration_accepted
      [of pyfloat_example "''soon''" 0 False "''home''" "GpioModule ''gpio0''" relay1 True]
  by (simp add: relay1_def output_topic_def pyfloat_example_def)

section \<open>The sensor poller\<close>

lemma fired_poll_sensor:
  "fired (poll_sensor pyround sens_conf readings) =
     map (\<lambda>v. SensorReadEvent (sens_name sens_conf) (pyround v (digits sens_conf)))
       (List.map_filter id readings)"
  by (induction pyround sens_conf readings rule: poll_sensor.induct)
    (simp_all add: List.map_filter_simps)

lemma sleeps_poll_sensor:
  "filter is_sleep (poll_sensor pyround sens_conf readings) =
     replicate (length readings) (Sleep (Finite (interval sens_conf)))"
  by (induction pyround sens_conf readings rule: poll_sensor.induct) simp_all

text \<open>
  Claim C10. An iteration of the sensor poller in which the module returns no reading
  performs the sleep for the configured interval and nothing else, and the poller goes
  on with the next reading. Over any run of readings one event is fired for each
  actual reading and none for a missing one, so the sensor handler publishes once for
  each actual reading only, and the poller sleeps once in every iteration.
\<close>

theorem no_reading_no_event:
  "poll_sensor pyround sens_conf (None # readings) =
     Sleep (Finite (interval sens_conf)) # poll_sensor pyround sens_conf readings
   \<and> fired (poll_sensor pyround sens_conf readings) =
       map (\<lambda>v. SensorReadEvent (sens_name sens_conf) (pyround v (digits sens_conf)))
         (List.map_filter id readings)
   \<and> sensor_publishes pystr pfx (poll_sensor pyround sens_conf readings) =
       map (\<lambda>v. Publish (pfx @ ''/sensor/'' @ sens_name sens_conf)
                  (pystr (pyround v (digits sens_conf))) None None)
         (List.map_filter id readings)
   \<and> filter is_sleep (poll_sensor pyround sens_conf readings) =
       replicate (length readings) (Sleep (Finite (interval sens_conf)))"
proof (intro conjI)
  show "sensor_publishes pystr pfx (poll_sensor pyround sens_conf readings) =
       map (\<lambda>v. Publish (pfx @ ''/sensor/'' @ sens_name sens_conf)
                  (pystr (pyround v (digits sens_conf))) None None)
         (List.map_filter id readings)"
    unfolding sensor_publishes_def fired_poll_sensor
    by (induction "List.map_filter id readings" arbitrary: readings)
      (simp_all add: SENSOR_TOPIC_def map_concat comp_def)
qed (simp_all add: fired_poll_sensor sleeps_poll_sensor)

section \<open>The reaper\<close>

lemma failed_done: "failed t \<Longrightarrow> task_done t"
  by (cases t rule: failed.cases) auto

lemma await_finished_logs:
  "\<forall>t \<in> set ts. \<not> escapes t \<Longrightarrow>
   await_finished ts =
     Inr (map (\<lambda>t. Log EXCEPTION ''Exception in task: %r:'') (filter failed ts))"
  by (induction ts rule: await_finished.induct) auto

lemma filter_failed_done: "filter failed (filter task_done ts) = filter failed ts"
  by (induction ts) (auto dest: failed_done)

text \<open>
  Claim C8. A pass of the reaper sleeps 1 second and then, when every exception that
  ended a tracked task is an \<open>Exception\<close>, returns normally (the loop goes on): the
  tracked tasks that remain are those that are not done, in their order, so no
  finished task stays tracked; one entry is logged for each task that ended with an
  exception and nothing for a task that returned. Nothing else of the state changes.
\<close>

theorem reaper_pass_removes_finished:
  assumes "\<forall>t \<in> set (unawaited_tasks s). \<not> escapes t"
  shows "remove_finished_tasks_pass s =
           Inr (s\<lparr>unawaited_tasks := filter (\<lambda>t. \<not> task_done t) (unawaited_tasks s)\<rparr>,
                Sleep (Finite 1) # map (\<lambda>t. Log EXCEPTION ''Exception in task: %r:'')
                            (filter failed (unawaited_tasks s)))
         \<and> (\<forall>t \<in> set (filter (\<lambda>t. \<not> task_done t) (unawaited_tasks s)). \<not> task_done t)"
proof (cases "filter task_done (unawaited_tasks s) = []")
  case True
  then have none: "\<forall>t \<in> set (unawaited_tasks s). \<not> task_done t"
    by (simp add: filter_empty_conv)
  then have "filter (\<lambda>t. \<not> task_done t) (unawaited_tasks s) = unawaited_tasks s"
    by simp
  moreover have "filter failed (unawaited_tasks s) = []"
    using none failed_done by (auto simp: filter_empty_conv)
  ultimately show ?thesis
    using True none by (simp add: remove_finished_tasks_pass_def)
next
  case False
  have "\<forall>t \<in> set (filter task_done (unawaited_tasks s)). \<not> escapes t"
    using assms by simp
  then have "await_finished (filter task_done (unawaited_tasks s)) =
      Inr (map (\<lambda>t. Log EXCEPTION ''Exception in task: %r:'')
             (filter failed (unawaited_tasks s)))"
    using await_finished_logs [of "filter task_done (unawaited_tasks s)"]
    by (simp only: filter_failed_done)
  then show ?thesis
    using False by (simp add: remove_finished_tasks_pass_def)
qed

theorem reaper_pass_removes_finished_witness:
  "remove_finished_tasks_pass
     (example_server\<lparr>unawaited_tasks :=
        [Task (DigitalOutputLoop ''gpio0'') Pending,
         Task (SetMs (GpioModule ''gpio0'') relay1 True ''250'') Returned,
         Task (PollSensor ''dht'') (Raised (PyException ''OSError''))]\<rparr>) =
     Inr (example_server, [Sleep (Finite 1), Log EXCEPTION ''Exception in task: %r:''])"
  using reaper_pass_removes_finished
    [of "example_server\<lparr>unawaited_tasks :=
        [Task (DigitalOutputLoop ''gpio0'') Pending,
         Task (SetMs (GpioModule ''gpio0'') relay1 True ''250'') Returned,
         Task (PollSensor ''dht'') (Raised (PyException ''OSError''))]\<rparr>"]
  by (simp add: example_server_def)


section \<open>Module queues and their workers\<close>









section \<open>Workers under interleaving\<close>

lemma queue_of_upd:
  "queue_of (s\<lparr>module_output_queues := Q\<rparr>) mn = (case Q mn of None \<Rightarrow> [] | Some q \<Rightarrow> q)"
  by (simp add: queue_of_def)























section \<open>Shutdown\<close>


lemma effects_of_map_Cancel: "effects_of t (map Cancel ts) = []"
  by (induction ts) auto



























end
